theory Spec2Isabelle
  imports Complex_Main
begin

section \<open>Python values and the tabular data model\<close>

text \<open>
  A Python float is an IEEE 754 double or NaN. The finite doubles are the reals
  \<open>m * 2 ^ e\<close> with \<open>\<bar>m\<bar> < 2 ^ 53\<close>; \<open>fl x\<close> is the double nearest to the real \<open>x\<close>, ties
  going to the even significand, which is the result every arithmetic operation on
  doubles returns for the exact result \<open>x\<close>. The exponent range is not bounded here:
  the floats computed by this program are ratios of row counts, their products with
  100 and sums of a few of them, which are far from the overflow and underflow
  thresholds of a double.
\<close>

definition round_half_even :: "real \<Rightarrow> int" where
  "round_half_even x = (let f = \<lfloor>x\<rfloor>; r = x - of_int f in
     if r < 1 / 2 then f else if r > 1 / 2 then f + 1
     else if even f then f else f + 1)"

text \<open>The number of binary digits of \<open>n\<close>, and \<open>\<lfloor>log\<^sub>2 x\<rfloor>\<close> for a positive real \<open>x\<close>.\<close>

fun bit_length :: "nat \<Rightarrow> nat" where
  "bit_length n = (if n = 0 then 0 else Suc (bit_length (n div 2)))"

declare bit_length.simps [simp del]

definition binade :: "real \<Rightarrow> int" where
  "binade x = (if 1 \<le> x then int (bit_length (nat \<lfloor>x\<rfloor>)) - 1
               else - int (bit_length (nat (\<lceil>1 / x\<rceil> - 1))))"

definition fl :: "real \<Rightarrow> real" where
  "fl x = (if x = 0 then 0
           else let e = binade \<bar>x\<bar> - 52
                in of_int (round_half_even (x / 2 powi e)) * 2 powi e)"

definition unit_roundoff :: real where
  "unit_roundoff = 1 / 2 ^ 53"

text \<open>
  The only way the profiler produces NaN is numpy's division \<open>0 / 0\<close> on a dataset
  without rows (numpy returns nan and emits a warning; the program filters warnings).
  Every comparison with NaN is false, every arithmetic operation on NaN gives NaN.

  \<open>np_div k n\<close> is the division of the integer count \<open>k\<close> by \<open>len(df)\<close>: both operands
  are converted to doubles and the quotient is rounded. A count of rows is 0 when the
  dataset has no rows. The second operand of \<open>pf_times\<close> and \<open>pf_div\<close> is a literal
  that is a double.
\<close>

datatype pyfloat = Fin real | NaN

fun np_div :: "int \<Rightarrow> nat \<Rightarrow> pyfloat" where
  "np_div k n = (if n = 0 then NaN else Fin (fl (fl (real_of_int k) / fl (real n))))"

fun pf_times :: "pyfloat \<Rightarrow> real \<Rightarrow> pyfloat" where
  "pf_times (Fin x) y = Fin (fl (x * y))"
| "pf_times NaN y = NaN"

fun pf_div :: "pyfloat \<Rightarrow> real \<Rightarrow> pyfloat" where
  "pf_div (Fin x) y = Fin (fl (x / y))"
| "pf_div NaN y = NaN"

fun pf_plus :: "pyfloat \<Rightarrow> pyfloat \<Rightarrow> pyfloat" where
  "pf_plus (Fin x) (Fin y) = Fin (fl (x + y))"
| "pf_plus _ _ = NaN"

fun pf_gt :: "pyfloat \<Rightarrow> real \<Rightarrow> bool" where
  "pf_gt (Fin x) y = (x > y)"
| "pf_gt NaN y = False"


fun pf_le :: "pyfloat \<Rightarrow> real \<Rightarrow> bool" where
  "pf_le (Fin x) y = (x \<le> y)"
| "pf_le NaN y = False"

fun pf_abs :: "pyfloat \<Rightarrow> pyfloat" where
  "pf_abs (Fin x) = Fin \<bar>x\<bar>"
| "pf_abs NaN = NaN"

text \<open>
  A pandas DataFrame: an index of \<open>n_rows\<close> rows and an ordered sequence of named
  columns, each with a dtype and one nullable cell per row. \<open>len(df)\<close> is \<open>n_rows\<close>.
  A column label is a string; a DataFrame with labels of another type (the integer
  labels that \<open>read_json\<close> gives a list of rows, for instance) is not a value of this
  type.
\<close>

datatype cell = Num real | Str string

datatype dtype = Int64 | Float64 | Bool | Object | StringDtype | Datetime64

record column =
  col_name :: string
  col_dtype :: dtype
  cells :: "cell option list"

record dataframe =
  n_rows :: nat
  columns :: "column list"

definition wf_df :: "dataframe \<Rightarrow> bool" where
  "wf_df df \<longleftrightarrow> distinct (map col_name (columns df))
     \<and> list_all (\<lambda>c. length (cells c) = n_rows df) (columns df)"

text \<open>\<open>str(dtype)\<close>\<close>

fun dtype_str :: "dtype \<Rightarrow> string" where
  "dtype_str Int64 = ''int64''"
| "dtype_str Float64 = ''float64''"
| "dtype_str Bool = ''bool''"
| "dtype_str Object = ''object''"
| "dtype_str StringDtype = ''string''"
| "dtype_str Datetime64 = ''datetime64[ns]''"

text \<open>\<open>series.isnull().sum()\<close>, \<open>series.nunique()\<close> (nulls are not counted) and
  \<open>series.duplicated().sum()\<close> (a null duplicates an earlier null).\<close>

definition isnull_sum :: "column \<Rightarrow> nat" where
  "isnull_sum c = length (filter (\<lambda>x. x = None) (cells c))"

definition nunique :: "column \<Rightarrow> nat" where
  "nunique c = length (remdups (filter (\<lambda>x. x \<noteq> None) (cells c)))"

definition duplicated_sum :: "column \<Rightarrow> nat" where
  "duplicated_sum c = length (cells c) - length (remdups (cells c))"

section \<open>Strings\<close>

text \<open>
  Strings are lists of 8-bit characters (Latin-1 text). \<open>str.lower()\<close> maps A to Z
  and the Latin-1 capitals to their small letters; \<open>str.isspace()\<close> holds for the
  whitespace characters of that range.
\<close>

definition lower_char :: "char \<Rightarrow> char" where
  "lower_char c = (let n = (of_char c :: nat) in
     if (65 \<le> n \<and> n \<le> 90) \<or> (192 \<le> n \<and> n \<le> 222 \<and> n \<noteq> 215)
     then char_of (n + 32) else c)"

definition py_lower :: "string \<Rightarrow> string" where
  "py_lower s = map lower_char s"



fun starts_with :: "string \<Rightarrow> string \<Rightarrow> bool" where
  "starts_with [] s = True"
| "starts_with (k # ks) [] = False"
| "starts_with (k # ks) (c # cs) = (k = c \<and> starts_with ks cs)"

definition ends_with :: "string \<Rightarrow> string \<Rightarrow> bool" where
  "ends_with k s = starts_with (rev k) (rev s)"

text \<open>\<open>k in s\<close> on strings: \<open>k\<close> occurs in \<open>s\<close> as a contiguous substring.\<close>

fun contains :: "string \<Rightarrow> string \<Rightarrow> bool" where
  "contains k [] = (k = [])"
| "contains k (c # cs) = (starts_with k (c # cs) \<or> contains k cs)"

text \<open>\<open>s.split(c)\<close> for a separator of one character, and \<open>sep.join(xs)\<close>.\<close>

fun split_on :: "char \<Rightarrow> string \<Rightarrow> string list" where
  "split_on c [] = [[]]"
| "split_on c (x # xs) =
     (if x = c then [] # split_on c xs
      else (case split_on c xs of [] \<Rightarrow> [[x]] | w # ws \<Rightarrow> (x # w) # ws))"


definition apos :: char where
  "apos = CHR 0x27"

definition bslash :: char where
  "bslash = CHR 0x5C"

definition quoted :: "string \<Rightarrow> string" where
  "quoted s = [apos] @ s @ [apos]"

text \<open>Decimal numerals, and \<open>format(x, '.df')\<close>: the decimal with \<open>d\<close> fractional digits
  nearest to the value of the double, ties to even.\<close>

fun str_nat :: "nat \<Rightarrow> string" where
  "str_nat n = (if n < 10 then [''0123456789'' ! n]
                else str_nat (n div 10) @ [''0123456789'' ! (n mod 10)])"

declare str_nat.simps [simp del]


definition zero_pad :: "nat \<Rightarrow> string \<Rightarrow> string" where
  "zero_pad d s = replicate (d - length s) (CHR ''0'') @ s"

fun format_f :: "nat \<Rightarrow> pyfloat \<Rightarrow> string" where
  "format_f d NaN = ''nan''"
| "format_f d (Fin x) =
     (let n = nat (round_half_even (\<bar>x\<bar> * 10 ^ d)) in
      (if x < 0 then ''-'' else []) @ str_nat (n div 10 ^ d)
       @ (if d = 0 then [] else ''.'' @ zero_pad d (str_nat (n mod 10 ^ d))))"

section \<open>Dynamically typed values, exceptions, the library interface\<close>

record datetime =
  year :: nat
  month :: nat
  day :: nat
  hour :: nat
  minute :: nat
  second :: nat
  microsecond :: nat

text \<open>
  Values of type \<open>Any\<close>: what a configuration dictionary or a request holds. A
  \<open>dict\<close> has string keys and is an association list in insertion order. Besides the
  values that JSON has, a field can hold a \<open>tuple\<close>, which JSON writes as an array,
  and objects that JSON cannot write, of which a naive \<open>datetime\<close> is the one modelled.
\<close>

datatype pyval = PNone | PBool bool | PInt int | PFloat real | PStr string
  | PList "pyval list" | PDict "(string \<times> pyval) list"
  | PTuple "pyval list" | PDatetime datetime

datatype exn = KeyError string | TypeError | AttributeError | ValueError | ZeroDivisionError






text \<open>
  The dataclass \<open>PipelineConfig\<close>. Python checks no field type, so every field other than
  \<open>created_at\<close> holds a value of type \<open>Any\<close>; \<open>created_at\<close> is a naive datetime, set by
  \<open>__post_init__\<close> to the clock reading when the constructor is given none.
\<close>

record PipelineConfig =
  name :: pyval
  source_type :: pyval
  source_config :: pyval
  transformations :: pyval
  destination_type :: pyval
  destination_config :: pyval
  schedule :: pyval
  quality_checks :: pyval
  framework :: pyval
  created_at :: datetime

text \<open>
  The library routines the program calls, which are not part of the repository:
  \<open>re.match(pattern, value)\<close>; \<open>str(cell)\<close> as used by \<open>astype(str)\<close>; standard
  scaling followed by k-means (the labels of the rows, or \<open>None\<close> when the call
  raises); the isolation forest (one of 1 and -1 per row, or \<open>None\<close> when it raises);
  the Pearson correlation of two columns; \<open>str\<close> of a float, a container or a
  datetime; \<open>yaml.dump(asdict(config), default_flow_style=False)\<close>;
  \<open>datetime.fromisoformat\<close> on a string that is not in the layout of \<open>isoformat\<close>
  (\<open>None\<close> when it raises); \<open>str(e)\<close> of a caught exception; the element-wise
  comparisons \<open>series < value\<close> and \<open>series > value\<close> of pandas; whether
  \<open>pd.to_datetime(series.head(100))\<close> returns; and, for the clock reading \<open>now\<close>, the
  latest date \<open>pd.to_datetime(series.dropna()).max()\<close> of a column as ISO text with its
  age \<open>(now - latest).days\<close> (\<open>None\<close> when a call raises or the column holds no date);
  the built-in \<open>sum\<close> of a list of floats (whose rounding depends on the version of
  Python); and the completeness score of a DataFrame without columns, for its number
  of rows (the type of the sum over no columns, and so whether the division by zero
  cells raises, depends on the version of pandas).
\<close>

record runtime =
  re_match :: "string \<Rightarrow> string \<Rightarrow> bool"
  astype_str :: "cell \<Rightarrow> string"
  cluster_rows :: "real list list \<Rightarrow> nat list option"
  isolation_forest :: "real list list \<Rightarrow> int list option"
  pearson :: "column \<Rightarrow> column \<Rightarrow> pyfloat"
  py_repr :: "pyval \<Rightarrow> string"
  yaml_dump :: "PipelineConfig \<Rightarrow> string"
  fromisoformat :: "string \<Rightarrow> datetime option"
  exn_str :: "exn \<Rightarrow> string"
  series_lt :: "column \<Rightarrow> pyval \<Rightarrow> exn + bool list"
  series_gt :: "column \<Rightarrow> pyval \<Rightarrow> exn + bool list"
  parses_as_dates :: "column \<Rightarrow> bool"
  latest_date :: "datetime \<Rightarrow> column \<Rightarrow> (string \<times> int) option"
  float_sum :: "real list \<Rightarrow> real"
  completeness_without_columns :: "nat \<Rightarrow> exn + pyfloat"


section \<open>AIDataAnalyzer: data quality\<close>

text \<open>\<open>k / n * 100\<close> on doubles, for a count \<open>k\<close> and the number of rows \<open>n\<close>.\<close>

definition pct :: "real \<Rightarrow> real \<Rightarrow> real" where
  "pct k n = fl (fl (fl k / fl n) * 100)"

record metrics =
  null_percentage :: pyfloat
  unique_values :: nat
  data_type :: string
  completeness :: pyfloat
  duplicate_percentage :: "pyfloat option"

definition column_metrics :: "dataframe \<Rightarrow> column \<Rightarrow> metrics" where
  "column_metrics df c =
     \<lparr> null_percentage = pf_times (np_div (int (isnull_sum c)) (n_rows df)) 100,
       unique_values = nunique c,
       data_type = dtype_str (col_dtype c),
       completeness = pf_times (np_div (int (n_rows df) - int (isnull_sum c)) (n_rows df)) 100,
       duplicate_percentage =
         (if col_dtype c \<in> {Object, StringDtype}
          then Some (pf_times (np_div (int (duplicated_sum c)) (n_rows df)) 100)
          else None) \<rparr>"

definition assess_data_quality :: "dataframe \<Rightarrow> (string \<times> metrics) list" where
  "assess_data_quality df = map (\<lambda>c. (col_name c, column_metrics df c)) (columns df)"

section \<open>AIDataAnalyzer: semantic column types\<close>

definition email_pattern :: string where
  "email_pattern = ''^[a-zA-Z0-9._%+-]+@[a-zA-Z0-9.-]+'' @ [bslash] @ ''.[a-zA-Z]{2,}$''"

definition phone_pattern :: string where
  "phone_pattern = ''^'' @ [bslash] @ ''+?1?-?'' @ [bslash] @ ''.?'' @ [bslash] @ ''s?''
     @ [bslash] @ ''(?[0-9]{3}'' @ [bslash] @ '')?['' @ [bslash] @ ''s.-]?[0-9]{3}[''
     @ [bslash] @ ''s.-]?[0-9]{4}$''"

definition date_patterns :: "string list" where
  "date_patterns =
     [ [bslash] @ ''d{4}-'' @ [bslash] @ ''d{2}-'' @ [bslash] @ ''d{2}'',
       [bslash] @ ''d{2}/'' @ [bslash] @ ''d{2}/'' @ [bslash] @ ''d{4}'',
       [bslash] @ ''d{2}-'' @ [bslash] @ ''d{2}-'' @ [bslash] @ ''d{4}'' ]"

definition classify_column_type :: "runtime \<Rightarrow> string \<Rightarrow> string list \<Rightarrow> string" where
  "classify_column_type rt column_name sample_values =
     (let column_lower = py_lower column_name in
      if list_ex (\<lambda>val. re_match rt email_pattern val) (take 10 sample_values)
        then ''email''
      else if list_ex (\<lambda>val. re_match rt phone_pattern val) (take 10 sample_values)
        then ''phone''
      else if list_ex (\<lambda>val. list_ex (\<lambda>pattern. re_match rt pattern val) date_patterns)
                (take 10 sample_values)
        then ''date''
      else if list_ex (\<lambda>keyword. contains keyword column_lower) [''id'', ''key'', ''uuid'']
        then ''identifier''
      else if list_ex (\<lambda>keyword. contains keyword column_lower)
                [''price'', ''cost'', ''amount'', ''salary'']
        then ''currency''
      else if list_ex (\<lambda>keyword. contains keyword column_lower)
                [''address'', ''city'', ''state'', ''country'', ''zip'']
        then ''geographic''
      else ''generic'')"

text \<open>\<open>df[column].dropna().astype(str)\<close>\<close>

definition dropna_astype_str :: "runtime \<Rightarrow> column \<Rightarrow> string list" where
  "dropna_astype_str rt c = map (astype_str rt) (List.map_filter (\<lambda>x. x) (cells c))"

definition infer_column_types :: "runtime \<Rightarrow> dataframe \<Rightarrow> (string \<times> string) list" where
  "infer_column_types rt df =
     map (\<lambda>c. (col_name c,
                classify_column_type rt (col_name c) (take 100 (dropna_astype_str rt c))))
         (columns df)"

section \<open>AIDataAnalyzer: patterns, anomalies, correlations\<close>

text \<open>\<open>df.select_dtypes(include=[np.number])\<close> and \<open>df[numeric_columns].fillna(0)\<close>
  (one list of numbers per numeric column).\<close>

definition numeric_columns :: "dataframe \<Rightarrow> column list" where
  "numeric_columns df = filter (\<lambda>c. col_dtype c \<in> {Int64, Float64}) (columns df)"

fun fillna0 :: "cell option \<Rightarrow> real" where
  "fillna0 (Some (Num r)) = r"
| "fillna0 _ = 0"

definition numeric_data :: "dataframe \<Rightarrow> real list list" where
  "numeric_data df = map (\<lambda>c. map fillna0 (cells c)) (numeric_columns df)"

text \<open>The value stored under \<open>'clusters'\<close>; the dictionary \<open>patterns\<close> has this key or
  is empty (\<open>None\<close>).\<close>

datatype clusters_entry = ClusterSummary nat "(nat \<times> nat) list" | ClusterError string

definition detect_patterns :: "runtime \<Rightarrow> dataframe \<Rightarrow> clusters_entry option" where
  "detect_patterns rt df =
     (if length (numeric_columns df) > 0 then
        (if n_rows df > 0 then
           (case cluster_rows rt (numeric_data df) of
              Some clusters \<Rightarrow>
                Some (ClusterSummary (length (remdups clusters))
                        (map (\<lambda>l. (l, count_list clusters l)) (sort (remdups clusters))))
            | None \<Rightarrow> Some (ClusterError ''Could not perform clustering''))
         else None)
      else None)"

text \<open>The value stored under \<open>'numeric_anomalies'\<close>, if any.\<close>

datatype anomalies_entry = AnomalySummary int pyfloat | AnomalyError string

definition detect_anomalies :: "runtime \<Rightarrow> dataframe \<Rightarrow> anomalies_entry option" where
  "detect_anomalies rt df =
     (if length (numeric_columns df) > 0 then
        (if n_rows df > 10 then
           (case isolation_forest rt (numeric_data df) of
              Some outliers \<Rightarrow>
                (let anomaly_count = int (length (filter (\<lambda>x. x = - 1) outliers)) in
                 Some (AnomalySummary anomaly_count
                         (pf_times (np_div anomaly_count (n_rows df)) 100)))
            | None \<Rightarrow> Some (AnomalyError ''Could not detect anomalies''))
         else None)
      else None)"

record strong_correlation =
  column1 :: string
  column2 :: string
  correlation :: pyfloat

datatype correlations =
    Correlations "strong_correlation list" "(string \<times> (string \<times> pyfloat) list) list"
  | InsufficientColumns string

definition corr_matrix :: "runtime \<Rightarrow> column list \<Rightarrow> pyfloat list list" where
  "corr_matrix rt cs = map (\<lambda>a. map (\<lambda>b. pearson rt a b) cs) cs"

text \<open>The index pairs visited by \<open>for i in range(n): for j in range(i+1, n)\<close>, in the
  order of the visit.\<close>

definition index_pairs :: "nat \<Rightarrow> (nat \<times> nat) list" where
  "index_pairs n = concat (map (\<lambda>i. map (\<lambda>j. (i, j)) [Suc i..<n]) [0..<n])"

definition analyze_correlations :: "runtime \<Rightarrow> dataframe \<Rightarrow> correlations" where
  "analyze_correlations rt df =
     (let numeric_df = numeric_columns df in
      if length numeric_df > 1 then
        (let m = corr_matrix rt numeric_df;
             strong_correlations =
               map (\<lambda>(i, j). \<lparr> column1 = col_name (numeric_df ! i),
                                column2 = col_name (numeric_df ! j),
                                correlation = m ! i ! j \<rparr>)
                   (filter (\<lambda>(i, j). pf_gt (pf_abs (m ! i ! j)) (7 / 10))
                           (index_pairs (length numeric_df)))
         in Correlations strong_correlations
              (map (\<lambda>a. (col_name a, map (\<lambda>b. (col_name b, pearson rt b a)) numeric_df))
                   numeric_df))
      else InsufficientColumns ''Insufficient numeric columns for correlation analysis'')"

section \<open>AIDataAnalyzer: recommendations\<close>

record analysis =
  data_quality :: "(string \<times> metrics) list"
  column_types :: "(string \<times> string) list"
  patterns :: "clusters_entry option"
  anomalies :: "anomalies_entry option"
  correlations :: correlations
  recommendations :: "string list"

definition quality_recommendations :: "string \<times> metrics \<Rightarrow> string list" where
  "quality_recommendations cm =
     (if pf_gt (null_percentage (snd cm)) 20
      then [''High null percentage ('' @ format_f 1 (null_percentage (snd cm))
             @ ''%) in column '' @ quoted (fst cm) @ ''. Consider imputation or removal.'']
      else [])
     @ (case duplicate_percentage (snd cm) of
          Some d \<Rightarrow>
            (if pf_gt d 10
             then [''High duplicate percentage ('' @ format_f 1 d
                    @ ''%) in column '' @ quoted (fst cm) @ ''. Consider deduplication.'']
             else [])
        | None \<Rightarrow> [])"

definition type_recommendations :: "string \<times> string \<Rightarrow> string list" where
  "type_recommendations ct =
     (if snd ct = ''email''
      then [''Column '' @ quoted (fst ct)
             @ '' contains emails. Consider email validation and privacy measures.'']
      else if snd ct = ''identifier''
      then [''Column '' @ quoted (fst ct)
             @ '' appears to be an identifier. Consider indexing for performance.'']
      else if snd ct = ''date''
      then [''Column '' @ quoted (fst ct)
             @ '' contains dates. Consider date parsing and time-based analysis.'']
      else [])"

definition correlation_recommendation :: "strong_correlation \<Rightarrow> string" where
  "correlation_recommendation corr =
     ''Strong correlation ('' @ format_f 2 (correlation corr) @ '') between ''
       @ quoted (column1 corr) @ '' and '' @ quoted (column2 corr)
       @ ''. Consider feature engineering.''"

definition anomaly_recommendations :: "anomalies_entry option \<Rightarrow> string list" where
  "anomaly_recommendations a =
     (case a of
        None \<Rightarrow> []
      | Some e \<Rightarrow>
          (let anomaly_pct = (case e of AnomalySummary n p \<Rightarrow> p | AnomalyError s \<Rightarrow> Fin 0) in
           if pf_gt anomaly_pct 5
           then [''High anomaly rate ('' @ format_f 1 anomaly_pct
                  @ ''%). Consider outlier handling strategies.'']
           else []))"

definition generate_recommendations :: "analysis \<Rightarrow> string list" where
  "generate_recommendations a =
     concat (map quality_recommendations (data_quality a))
     @ concat (map type_recommendations (column_types a))
     @ (case correlations a of
          Correlations strong m \<Rightarrow> map correlation_recommendation strong
        | InsufficientColumns s \<Rightarrow> [])
     @ anomaly_recommendations (anomalies a)"

definition analyze_data_patterns :: "runtime \<Rightarrow> dataframe \<Rightarrow> analysis" where
  "analyze_data_patterns rt df =
     (let analysis_results =
        \<lparr> data_quality = assess_data_quality df,
          column_types = infer_column_types rt df,
          patterns = detect_patterns rt df,
          anomalies = detect_anomalies rt df,
          correlations = analyze_correlations rt df,
          recommendations = [] \<rparr>
      in analysis_results \<lparr> recommendations := generate_recommendations analysis_results \<rparr>)"

section \<open>PipelineConfig and the registry\<close>

text \<open>\<open>datetime.isoformat()\<close> of a naive datetime.\<close>

definition isoformat :: "datetime \<Rightarrow> string" where
  "isoformat t =
     zero_pad 4 (str_nat (year t)) @ ''-'' @ zero_pad 2 (str_nat (month t)) @ ''-''
     @ zero_pad 2 (str_nat (day t)) @ ''T'' @ zero_pad 2 (str_nat (hour t)) @ '':''
     @ zero_pad 2 (str_nat (minute t)) @ '':'' @ zero_pad 2 (str_nat (second t))
     @ (if microsecond t = 0 then [] else ''.'' @ zero_pad 6 (str_nat (microsecond t)))"









subsection \<open>DataOpsManager._create_pipeline_config\<close>

definition column_name_of :: "string \<Rightarrow> string" where
  "column_name_of recommendation =
     (if apos \<in> set recommendation then split_on apos recommendation ! 1
      else ''unknown_column'')"

definition recommended_transformations :: "string \<Rightarrow> pyval list" where
  "recommended_transformations recommendation =
     (if contains ''null percentage'' (py_lower recommendation)
      then [PDict [(''type'', PStr ''fill_nulls''),
                   (''column'', PStr (column_name_of recommendation)),
                   (''method'', PStr ''median'')]]
      else if contains ''duplicate'' (py_lower recommendation)
      then [PDict [(''type'', PStr ''remove_duplicates''), (''subset'', PNone)]]
      else [])"

definition recommended_quality_checks :: "string \<times> string \<Rightarrow> pyval list" where
  "recommended_quality_checks ct =
     (if snd ct = ''email''
      then [PDict [(''type'', PStr ''email_validation''), (''column'', PStr (fst ct))]]
      else if snd ct = ''identifier''
      then [PDict [(''type'', PStr ''unique''), (''column'', PStr (fst ct))]]
      else [])"

text \<open>
  The analysis dictionary built by \<open>analyze_data_patterns\<close> has no key \<open>'ai_insights'\<close>,
  so the freshness information is empty and the schedule is \<open>@daily\<close>. The last
  argument is the clock reading taken by \<open>__post_init__\<close>.
\<close>

definition create_pipeline_config ::
  "string \<Rightarrow> string \<Rightarrow> analysis \<Rightarrow> string \<Rightarrow> (string \<times> pyval) list \<Rightarrow> datetime
     \<Rightarrow> PipelineConfig" where
  "create_pipeline_config nm data_source a fw dest_config now =
     (let src = (if ends_with ''.csv'' data_source
                   then (PDict [(''file_path'', PStr data_source)], PStr ''csv'')
                 else if ends_with ''.json'' data_source
                   then (PDict [(''file_path'', PStr data_source)], PStr ''json'')
                 else (PDict [(''connection_string'', PStr data_source)], PStr ''database''))
      in \<lparr> name = PStr nm,
           source_type = snd src,
           source_config = fst src,
           transformations = PList (concat (map recommended_transformations (recommendations a))),
           destination_type = (case map_of dest_config ''type'' of
                                 Some v \<Rightarrow> v | None \<Rightarrow> PStr ''csv''),
           destination_config = PDict dest_config,
           schedule = PStr ''@daily'',
           quality_checks = PList (concat (map recommended_quality_checks (column_types a))),
           framework = PStr fw,
           created_at = now \<rparr>)"

subsection \<open>The registry: in-memory dictionary and persisted file\<close>

fun dict_set :: "('k \<times> 'v) list \<Rightarrow> 'k \<Rightarrow> 'v \<Rightarrow> ('k \<times> 'v) list" where
  "dict_set [] k v = [(k, v)]"
| "dict_set (p # ps) k v = (if fst p = k then (k, v) # ps else p # dict_set ps k v)"

definition dict_del :: "('k \<times> 'v) list \<Rightarrow> 'k \<Rightarrow> ('k \<times> 'v) list" where
  "dict_del ps k = filter (\<lambda>p. fst p \<noteq> k) ps"

text \<open>
  A JSON document. \<open>json.dump\<close> writes \<open>None\<close>, booleans, integers, floats and strings
  as themselves, a list and a tuple as an array, a dictionary as an object, and raises
  \<open>TypeError\<close> on any other value (\<open>to_json\<close> is \<open>None\<close> then). \<open>json.load\<close> reads
  an array as a list and an object as a dictionary in which a repeated key keeps its
  first position and its last value.
\<close>

datatype json = JNull | JBool bool | JInt int | JFloat real | JStr string
  | JArray "json list" | JObject "(string \<times> json) list"

fun those_opt :: "'a option list \<Rightarrow> 'a list option" where
  "those_opt [] = Some []"
| "those_opt (None # xs) = None"
| "those_opt (Some x # xs) = map_option ((#) x) (those_opt xs)"

fun to_json :: "pyval \<Rightarrow> json option" where
  "to_json PNone = Some JNull"
| "to_json (PBool b) = Some (JBool b)"
| "to_json (PInt i) = Some (JInt i)"
| "to_json (PFloat x) = Some (JFloat x)"
| "to_json (PStr s) = Some (JStr s)"
| "to_json (PList xs) = map_option JArray (those_opt (map to_json xs))"
| "to_json (PTuple xs) = map_option JArray (those_opt (map to_json xs))"
| "to_json (PDict d) =
     map_option JObject
       (those_opt (map (\<lambda>kv. map_option (Pair (fst kv)) (to_json (snd kv))) d))"
| "to_json (PDatetime t) = None"




text \<open>
  The manager holds the dictionary \<open>pipelines\<close> (insertion-ordered, keys unique). The
  registry file is absent, or holds a JSON document, or holds a text that is not JSON:
  \<open>open(path, 'w')\<close> empties the file and \<open>json.dump\<close> writes the document piece by
  piece, so an encoding error leaves a truncated text behind. \<open>writable\<close> tells
  whether \<open>open(path, 'w')\<close> succeeds.
\<close>

datatype file_content = NoFile | Document json | Truncated

record manager =
  pipelines :: "(string \<times> PipelineConfig) list"
  registry_file :: file_content
  writable :: bool

text \<open>\<open>asdict(config)\<close> with \<open>created_at\<close> replaced by its ISO text, as
  \<open>_save_configurations\<close> builds it.\<close>

definition config_dict :: "PipelineConfig \<Rightarrow> (string \<times> pyval) list" where
  "config_dict c =
     [(''name'', name c), (''source_type'', source_type c),
      (''source_config'', source_config c), (''transformations'', transformations c),
      (''destination_type'', destination_type c),
      (''destination_config'', destination_config c), (''schedule'', schedule c),
      (''quality_checks'', quality_checks c), (''framework'', framework c),
      (''created_at'', PStr (isoformat (created_at c)))]"

definition registry_document :: "(string \<times> PipelineConfig) list \<Rightarrow> pyval" where
  "registry_document ps = PDict (map (\<lambda>p. (fst p, PDict (config_dict (snd p)))) ps)"

text \<open>
  \<open>_save_configurations\<close>: every exception is caught and logged. When the file cannot
  be opened it stays as it was; when a value cannot be encoded the file is left
  truncated; the dictionary \<open>pipelines\<close> is never changed.
\<close>

definition save_configurations :: "manager \<Rightarrow> manager" where
  "save_configurations m =
     (if \<not> writable m then m
      else (case to_json (registry_document (pipelines m)) of
              Some j \<Rightarrow> m \<lparr> registry_file := Document j \<rparr>
            | None \<Rightarrow> m \<lparr> registry_file := Truncated \<rparr>))"





subsection \<open>update_pipeline and delete_pipeline\<close>

datatype response = ErrorResponse string | SuccessResponse string "PipelineConfig option"

definition not_found :: "string \<Rightarrow> string" where
  "not_found pipeline_name = ''Pipeline '' @ quoted pipeline_name @ '' not found''"

definition apply_updates :: "(string \<times> pyval) list \<Rightarrow> PipelineConfig \<Rightarrow> PipelineConfig" where
  "apply_updates updates config =
     (let c1 = (case map_of updates ''schedule'' of
                  Some v \<Rightarrow> config \<lparr> schedule := v \<rparr> | None \<Rightarrow> config);
          c2 = (case map_of updates ''transformations'' of
                  Some v \<Rightarrow> c1 \<lparr> transformations := v \<rparr> | None \<Rightarrow> c1);
          c3 = (case map_of updates ''quality_checks'' of
                  Some v \<Rightarrow> c2 \<lparr> quality_checks := v \<rparr> | None \<Rightarrow> c2)
      in c3)"

definition update_pipeline ::
  "manager \<Rightarrow> string \<Rightarrow> (string \<times> pyval) list \<Rightarrow> response \<times> manager" where
  "update_pipeline m pipeline_name updates =
     (case map_of (pipelines m) pipeline_name of
        None \<Rightarrow> (ErrorResponse (not_found pipeline_name), m)
      | Some config \<Rightarrow>
          (let config' = apply_updates updates config;
               m' = save_configurations
                      (m \<lparr> pipelines := dict_set (pipelines m) pipeline_name config' \<rparr>)
           in (SuccessResponse
                 (''Pipeline '' @ quoted pipeline_name @ '' updated successfully'')
                 (Some config'), m')))"

definition delete_pipeline :: "manager \<Rightarrow> string \<Rightarrow> response \<times> manager" where
  "delete_pipeline m pipeline_name =
     (case map_of (pipelines m) pipeline_name of
        None \<Rightarrow> (ErrorResponse (not_found pipeline_name), m)
      | Some config \<Rightarrow>
          (SuccessResponse (''Pipeline '' @ quoted pipeline_name @ '' deleted successfully'')
             None,
           save_configurations (m \<lparr> pipelines := dict_del (pipelines m) pipeline_name \<rparr>)))"

section \<open>DataQualityValidator\<close>


record rule_result =
  rule :: pyval
  passed :: bool
  message :: string
























section \<open>PipelineGenerator\<close>




















section \<open>The classification cascade as an ordered rule list\<close>

text \<open>
  The specification describes semantic-type inference as an ordered list of
  (predicate, label) rules over the column name and the sampled values, evaluated in
  priority order, the first match winning, with \<open>generic\<close> when no rule matches.
\<close>

fun first_match :: "(('a \<Rightarrow> bool) \<times> 'b) list \<Rightarrow> 'b \<Rightarrow> 'a \<Rightarrow> 'b" where
  "first_match [] dflt x = dflt"
| "first_match (r # rs) dflt x = (if fst r x then snd r else first_match rs dflt x)"

definition semantic_type_cascade ::
  "runtime \<Rightarrow> ((string \<times> string list \<Rightarrow> bool) \<times> string) list" where
  "semantic_type_cascade rt =
     [ (\<lambda>nv. list_ex (\<lambda>val. re_match rt email_pattern val) (snd nv), ''email''),
       (\<lambda>nv. list_ex (\<lambda>val. re_match rt phone_pattern val) (snd nv), ''phone''),
       (\<lambda>nv. list_ex (\<lambda>val. list_ex (\<lambda>p. re_match rt p val) date_patterns) (snd nv), ''date''),
       (\<lambda>nv. list_ex (\<lambda>k. contains k (py_lower (fst nv))) [''id'', ''key'', ''uuid''],
          ''identifier''),
       (\<lambda>nv. list_ex (\<lambda>k. contains k (py_lower (fst nv)))
                [''price'', ''cost'', ''amount'', ''salary''], ''currency''),
       (\<lambda>nv. list_ex (\<lambda>k. contains k (py_lower (fst nv)))
                [''address'', ''city'', ''state'', ''country'', ''zip''], ''geographic'') ]"

section \<open>Example inputs\<close>

text \<open>
  A library interface in which no pattern matches and every estimator raises; the
  examples that use it are datasets on which the program reaches none of these calls,
  or on which the result does not depend on them.
\<close>

definition no_library :: runtime where
  "no_library = \<lparr> re_match = (\<lambda>p v. False), astype_str = (\<lambda>c. []),
      cluster_rows = (\<lambda>m. None), isolation_forest = (\<lambda>m. None),
      pearson = (\<lambda>a b. NaN), py_repr = (\<lambda>v. []), yaml_dump = (\<lambda>c. []),
      fromisoformat = (\<lambda>s. None), exn_str = (\<lambda>e. []),
      series_lt = (\<lambda>c v. Inl TypeError), series_gt = (\<lambda>c v. Inl TypeError),
      parses_as_dates = (\<lambda>c. False), latest_date = (\<lambda>now c. None),
      float_sum = (\<lambda>xs. 0), completeness_without_columns = (\<lambda>n. Inl ZeroDivisionError) \<rparr>"

definition df_text_only :: dataframe where
  "df_text_only = \<lparr> n_rows = 1,
      columns = [\<lparr> col_name = ''label'', col_dtype = Object, cells = [Some (Str ''x'')] \<rparr>] \<rparr>"

definition df_no_rows :: dataframe where
  "df_no_rows = \<lparr> n_rows = 0,
      columns = [\<lparr> col_name = ''amount'', col_dtype = Float64, cells = [] \<rparr>] \<rparr>"

definition df_two_numeric :: dataframe where
  "df_two_numeric = \<lparr> n_rows = 2,
      columns = [\<lparr> col_name = ''x'', col_dtype = Int64, cells = [Some (Num 1), Some (Num 2)] \<rparr>,
                 \<lparr> col_name = ''y'', col_dtype = Float64, cells = [Some (Num 2), Some (Num 4)] \<rparr>] \<rparr>"

definition df_apostrophe :: dataframe where
  "df_apostrophe = \<lparr> n_rows = 5,
      columns = [\<lparr> col_name = ''o'' @ [apos] @ ''clock'', col_dtype = Float64,
                   cells = [None, None, Some (Num 7), Some (Num 8), Some (Num 9)] \<rparr>] \<rparr>"

definition t0 :: datetime where
  "t0 = \<lparr> year = 2024, month = 1, day = 2, hour = 3, minute = 4, second = 5, microsecond = 0 \<rparr>"

definition cfg0 :: PipelineConfig where
  "cfg0 = \<lparr> name = PStr ''sales'', source_type = PStr ''csv'',
      source_config = PDict [(''file_path'', PStr ''sales.csv'')],
      transformations = PList [],
      destination_type = PStr ''csv'',
      destination_config = PDict [(''type'', PStr ''csv''), (''file_path'', PStr ''output.csv'')],
      schedule = PStr ''@daily'',
      quality_checks = PList [PDict [(''type'', PStr ''unique''), (''column'', PStr ''id'')]],
      framework = PStr ''airflow'', created_at = t0 \<rparr>"

definition mgr0 :: manager where
  "mgr0 = save_configurations
            \<lparr> pipelines = [(''sales'', cfg0)], registry_file = NoFile, writable = True \<rparr>"




definition df_thirds :: dataframe where
  "df_thirds = \<lparr> n_rows = 3,
      columns = [\<lparr> col_name = ''a'', col_dtype = Float64,
                   cells = [None, Some (Num 1), Some (Num 2)] \<rparr>] \<rparr>"





definition df_one_row :: dataframe where
  "df_one_row = \<lparr> n_rows = 1,
      columns = [\<lparr> col_name = ''a'', col_dtype = Float64, cells = [Some (Num 1)] \<rparr>] \<rparr>"

section \<open>Properties\<close>

subsection \<open>Exceptions\<close>


subsection \<open>Rounding to doubles\<close>

lemmas fl_eval = fl_def binade_def bit_length.simps round_half_even_def Let_def

lemma bit_length_bounds:
  "0 < n \<Longrightarrow> 2 ^ (bit_length n - 1) \<le> n \<and> n < 2 ^ bit_length n"
proof (induction n rule: bit_length.induct)
  case (1 n)
  show ?case
  proof (cases "n div 2 = 0")
    case True
    with 1(2) have "n = 1" by (simp add: div_eq_0_iff)
    then show ?thesis by (simp add: bit_length.simps)
  next
    case False
    with 1 have ih: "2 ^ (bit_length (n div 2) - 1) \<le> n div 2" "n div 2 < 2 ^ bit_length (n div 2)"
      by auto
    have pos: "0 < bit_length (n div 2)" using False by (simp add: bit_length.simps)
    have bl: "bit_length n = Suc (bit_length (n div 2))" using 1(2) by (simp add: bit_length.simps)
    have "2 ^ (bit_length n - 1) = 2 * 2 ^ (bit_length (n div 2) - 1)"
      using pos bl by (cases "bit_length (n div 2)") simp_all
    also have "\<dots> \<le> 2 * (n div 2)" using ih(1) by simp
    also have "\<dots> \<le> n" by simp
    finally have a: "2 ^ (bit_length n - 1) \<le> n" .
    have "n < 2 * (n div 2) + 2" by presburger
    also have "\<dots> \<le> 2 * 2 ^ bit_length (n div 2)" using ih(2) by simp
    finally have b: "n < 2 ^ bit_length n" by (simp add: bl)
    from a b show ?thesis by simp
  qed
qed

lemma real_bit_length_bounds:
  assumes "0 < n"
  shows "2 ^ (bit_length n - 1) \<le> real n" and "real n + 1 \<le> 2 ^ bit_length n"
proof -
  from bit_length_bounds [OF assms]
  have a: "2 ^ (bit_length n - 1) \<le> n" and b: "Suc n \<le> 2 ^ bit_length n" by simp_all
  from a have "real (2 ^ (bit_length n - 1)) \<le> real n" by (simp only: of_nat_le_iff)
  then show "2 ^ (bit_length n - 1) \<le> real n" by simp
  from b have "real (Suc n) \<le> real (2 ^ bit_length n)" by (simp only: of_nat_le_iff)
  then show "real n + 1 \<le> 2 ^ bit_length n" by simp
qed

lemma binade_bounds:
  assumes "0 < x"
  shows "2 powi binade x \<le> x" and "x < 2 powi (binade x + 1)"
proof -
  show "2 powi binade x \<le> x"
  proof (cases "1 \<le> x")
    case True
    let ?n = "nat \<lfloor>x\<rfloor>"
    have n: "0 < ?n" using True by simp
    then have bl: "0 < bit_length ?n" by (simp add: bit_length.simps)
    have b: "binade x = int (bit_length ?n - 1)"
      using True bl by (simp add: binade_def)
    have "(2::real) powi binade x = 2 ^ (bit_length ?n - 1)"
      by (simp add: b)
    also have "\<dots> \<le> real ?n" by (rule real_bit_length_bounds [OF n])
    also have "\<dots> \<le> x" using True by simp
    finally show ?thesis .
  next
    case False
    let ?m = "nat (\<lceil>1 / x\<rceil> - 1)"
    from False assms have y: "1 < 1 / x" by simp
    then have c: "2 \<le> \<lceil>1 / x\<rceil>" by linarith
    then have m: "0 < ?m" by simp
    have b: "binade x = - int (bit_length ?m)" using False by (simp add: binade_def)
    have "real ?m + 1 \<le> 2 ^ bit_length ?m" by (rule real_bit_length_bounds [OF m])
    moreover have "1 / x \<le> real ?m + 1" using c by simp linarith
    ultimately have "1 / x \<le> 2 ^ bit_length ?m" by linarith
    then have "1 / 2 ^ bit_length ?m \<le> x"
      using assms by (simp add: field_simps)
    moreover have "(2::real) powi binade x = 1 / 2 ^ bit_length ?m"
      unfolding b by (simp add: power_int_minus field_simps)
    ultimately show ?thesis by (simp only:)
  qed
  show "x < 2 powi (binade x + 1)"
  proof (cases "1 \<le> x")
    case True
    let ?n = "nat \<lfloor>x\<rfloor>"
    have n: "0 < ?n" using True by simp
    have b: "binade x + 1 = int (bit_length ?n)"
      using True by (simp add: binade_def)
    have "real ?n + 1 \<le> 2 ^ bit_length ?n" by (rule real_bit_length_bounds [OF n])
    moreover have "x < real ?n + 1" using True by simp
    moreover have "(2::real) powi (binade x + 1) = 2 ^ bit_length ?n"
      unfolding b by simp
    ultimately show ?thesis by (simp only:)
  next
    case False
    let ?m = "nat (\<lceil>1 / x\<rceil> - 1)"
    from False assms have y: "1 < 1 / x" by simp
    then have c: "2 \<le> \<lceil>1 / x\<rceil>" by linarith
    then have m: "0 < ?m" by simp
    then have bl: "0 < bit_length ?m" by (simp add: bit_length.simps)
    have b: "binade x + 1 = - int (bit_length ?m - 1)" using False bl by (simp add: binade_def)
    have "2 ^ (bit_length ?m - 1) \<le> real ?m" by (rule real_bit_length_bounds [OF m])
    moreover have "real ?m < 1 / x" using c by simp linarith
    ultimately have "2 ^ (bit_length ?m - 1) < 1 / x" by linarith
    then have "x < 1 / 2 ^ (bit_length ?m - 1)"
      using assms by (simp add: field_simps)
    moreover have "(2::real) powi (binade x + 1) = 1 / 2 ^ (bit_length ?m - 1)"
      unfolding b by (simp add: power_int_minus field_simps)
    ultimately show ?thesis by (simp only:)
  qed
qed

lemma round_half_even_error: "\<bar>of_int (round_half_even y) - y\<bar> \<le> 1 / 2"
  by (simp add: round_half_even_def Let_def)

lemma round_half_even_int [simp]: "round_half_even (of_int m) = m"
  by (simp add: round_half_even_def)

lemma round_half_even_mono:
  assumes "a \<le> b"
  shows "round_half_even a \<le> round_half_even b"
proof (cases "\<lfloor>a\<rfloor> = \<lfloor>b\<rfloor>")
  case True
  with assms show ?thesis by (auto simp: round_half_even_def Let_def)
next
  case False
  with assms have "\<lfloor>a\<rfloor> + 1 \<le> \<lfloor>b\<rfloor>" by (smt (verit) floor_mono)
  moreover have "round_half_even a \<le> \<lfloor>a\<rfloor> + 1" by (simp add: round_half_even_def Let_def)
  moreover have "\<lfloor>b\<rfloor> \<le> round_half_even b" by (simp add: round_half_even_def Let_def)
  ultimately show ?thesis by linarith
qed

lemma fl_zero [simp]: "fl 0 = 0"
  by (simp add: fl_def)

lemma fl_scaled:
  assumes "0 < x"
  defines "e \<equiv> binade x - 52"
  shows "fl x = of_int (round_half_even (x / 2 powi e)) * 2 powi e"
    and "2 ^ 52 \<le> x / 2 powi e" and "x / 2 powi e < 2 ^ 53"
proof -
  show "fl x = of_int (round_half_even (x / 2 powi e)) * 2 powi e"
    using assms by (simp add: fl_def Let_def)
  have p: "(0::real) < 2 powi e" by simp
  have s: "(2::real) powi binade x = 2 ^ 52 * 2 powi e"
    by (simp add: e_def power_int_diff)
  have s1: "(2::real) powi (binade x + 1) = 2 ^ 53 * 2 powi e"
    by (simp add: e_def power_int_diff power_int_add)
  from binade_bounds(1) [OF assms(1)] s have "2 ^ 52 * 2 powi e \<le> x" by simp
  then show "2 ^ 52 \<le> x / 2 powi e" using p by (simp add: pos_le_divide_eq)
  from binade_bounds(2) [OF assms(1)] s1 have "x < 2 ^ 53 * 2 powi e" by simp
  then show "x / 2 powi e < 2 ^ 53" using p by (simp add: pos_divide_less_eq)
qed

lemma fl_error:
  assumes "0 \<le> x"
  shows "\<bar>fl x - x\<bar> \<le> unit_roundoff * x"
proof (cases "x = 0")
  case True
  then show ?thesis by simp
next
  case False
  with assms have x: "0 < x" by simp
  define e where "e = binade x - 52"
  define s :: real where "s = 2 powi e"
  have s: "0 < s" by (simp add: s_def)
  note f = fl_scaled [OF x, folded e_def, folded s_def]
  have "fl x - x = (of_int (round_half_even (x / s)) - x / s) * s"
    using s by (simp add: f(1) left_diff_distrib)
  then have "\<bar>fl x - x\<bar> = \<bar>of_int (round_half_even (x / s)) - x / s\<bar> * s"
    using s by (simp add: abs_mult)
  also have "\<dots> \<le> 1 / 2 * s"
    using s round_half_even_error [of "x / s"] by (intro mult_right_mono) simp_all
  also have "\<dots> \<le> unit_roundoff * x"
  proof -
    from f(2) s have "2 ^ 52 * s \<le> x" by (simp add: pos_le_divide_eq)
    then show ?thesis by (simp add: unit_roundoff_def)
  qed
  finally show ?thesis .
qed

lemma fl_lower: "0 \<le> x \<Longrightarrow> (1 - unit_roundoff) * x \<le> fl x"
  using fl_error [of x] by (simp add: algebra_simps abs_le_iff)

lemma fl_upper: "0 \<le> x \<Longrightarrow> fl x \<le> (1 + unit_roundoff) * x"
  using fl_error [of x] by (simp add: algebra_simps abs_le_iff)

lemma fl_nonneg: "0 \<le> x \<Longrightarrow> 0 \<le> fl x"
proof -
  assume a: "0 \<le> x"
  have "0 \<le> (1 - unit_roundoff) * x" using a by (simp add: unit_roundoff_def)
  with fl_lower [OF a] show ?thesis by linarith
qed

lemma fl_pos: "0 < x \<Longrightarrow> 0 < fl x"
proof -
  assume a: "0 < x"
  have "0 < (1 - unit_roundoff) * x" using a by (simp add: unit_roundoff_def)
  with fl_lower [of x] a show ?thesis by linarith
qed

lemma binade_mono:
  assumes "0 < x" "x \<le> y"
  shows "binade x \<le> binade y"
proof -
  from assms have y: "0 < y" by simp
  have "(2::real) powi binade x < 2 powi (binade y + 1)"
    using binade_bounds(1) [OF assms(1)] binade_bounds(2) [OF y] assms(2) by linarith
  moreover have "(2::real) powi (binade y + 1) \<le> 2 powi binade x" if "binade y + 1 \<le> binade x"
    using that by (intro power_int_increasing) simp_all
  ultimately have "\<not> binade y + 1 \<le> binade x" by force
  then show ?thesis by simp
qed

lemma fl_mono:
  assumes "0 \<le> x" "x \<le> y"
  shows "fl x \<le> fl y"
proof (cases "x = 0")
  case True
  with assms fl_nonneg [of y] show ?thesis by simp
next
  case False
  with assms have x: "0 < x" and y: "0 < y" by simp_all
  define ex where "ex = binade x - 52"
  define ey where "ey = binade y - 52"
  note fx = fl_scaled [OF x, folded ex_def]
  note fy = fl_scaled [OF y, folded ey_def]
  show ?thesis
  proof (cases "binade x = binade y")
    case True
    then have e: "ex = ey" by (simp add: ex_def ey_def)
    have "x / 2 powi ey \<le> y / 2 powi ey" using assms(2) by (simp add: divide_right_mono)
    then have "round_half_even (x / 2 powi ey) \<le> round_half_even (y / 2 powi ey)"
      by (rule round_half_even_mono)
    then have "(of_int (round_half_even (x / 2 powi ey)) :: real)
                 \<le> of_int (round_half_even (y / 2 powi ey))" by simp
    then show ?thesis unfolding fx(1) fy(1) e by (intro mult_right_mono) simp_all
  next
    case False
    with binade_mono [OF x assms(2)] have lt: "binade x + 1 \<le> binade y" by simp
    have "round_half_even (x / 2 powi ex) \<le> round_half_even (of_int (2 ^ 53))"
      using fx(3) by (intro round_half_even_mono) simp
    then have "(of_int (round_half_even (x / 2 powi ex)) :: real) \<le> 2 ^ 53"
      unfolding round_half_even_int by (metis of_int_le_iff of_int_numeral of_int_power)
    then have "fl x \<le> 2 ^ 53 * 2 powi ex"
      unfolding fx(1) by (intro mult_right_mono) simp_all
    also have "\<dots> = 2 powi (binade x + 1)"
      by (simp add: ex_def power_int_diff power_int_add)
    also have "\<dots> \<le> 2 powi binade y"
      using lt by (intro power_int_increasing) simp_all
    also have "\<dots> = 2 ^ 52 * 2 powi ey"
      by (simp add: ey_def power_int_diff)
    also have "\<dots> \<le> fl y"
    proof -
      have "round_half_even (of_int (2 ^ 52)) \<le> round_half_even (y / 2 powi ey)"
        using fy(2) by (intro round_half_even_mono) simp
      then have "(2 ^ 52 :: real) \<le> of_int (round_half_even (y / 2 powi ey))"
        unfolding round_half_even_int by (metis of_int_le_iff of_int_numeral of_int_power)
      then show ?thesis unfolding fy(1) by (intro mult_right_mono) simp_all
    qed
    finally show ?thesis .
  qed
qed

lemma fl_one [simp]: "fl 1 = 1"
  by (simp add: fl_def binade_def bit_length.simps Let_def round_half_even_def)

lemma fl_hundred [simp]: "fl 100 = 100"
  by (simp add: fl_def binade_def bit_length.simps Let_def round_half_even_def)

lemma pct_range:
  assumes "0 \<le> k" "k \<le> n" "0 < n"
  shows "0 \<le> pct k n" and "pct k n \<le> 100"
proof -
  have c: "0 < fl n" using assms(3) by (rule fl_pos)
  have b: "0 \<le> fl k" "fl k \<le> fl n" using assms by (simp_all add: fl_nonneg fl_mono)
  then have q: "0 \<le> fl k / fl n" "fl k / fl n \<le> 1" using c by simp_all
  have q0: "0 \<le> fl (fl k / fl n)" using q(1) by (rule fl_nonneg)
  have "fl (fl k / fl n) \<le> fl 1" using q by (rule fl_mono)
  then have q1: "fl (fl k / fl n) \<le> 1" by simp
  show "0 \<le> pct k n" unfolding pct_def using q0 by (intro fl_nonneg) simp
  have "fl (fl (fl k / fl n) * 100) \<le> fl 100" using q0 q1 by (intro fl_mono) simp_all
  then show "pct k n \<le> 100" by (simp add: pct_def)
qed

lemma pct_bounds:
  assumes "0 \<le> k" "0 < n"
  shows "100 * ((1 - unit_roundoff) ^ 3 / (1 + unit_roundoff)) * (k / n) \<le> pct k n"
    and "pct k n \<le> 100 * ((1 + unit_roundoff) ^ 3 / (1 - unit_roundoff)) * (k / n)"
proof -
  define lo hi where "lo = 1 - unit_roundoff" and "hi = 1 + unit_roundoff"
  have lh: "0 < lo" "0 < hi" by (simp_all add: lo_def hi_def unit_roundoff_def)
  define B C Q where "B = fl k" and "C = fl n" and "Q = fl (B / C)"
  have B: "lo * k \<le> B" "B \<le> hi * k" "0 \<le> B"
    using assms(1) by (simp_all add: B_def lo_def hi_def fl_lower fl_upper fl_nonneg)
  have C: "lo * n \<le> C" "C \<le> hi * n" "0 < C"
    using assms(2) by (simp_all add: C_def lo_def hi_def fl_lower fl_upper fl_pos)
  have ln: "0 < lo * n" "0 < hi * n" using lh assms(2) by simp_all
  have d1: "lo * k / (hi * n) \<le> B / C"
    using B C lh assms by (intro frac_le) simp_all
  have d2: "B / C \<le> hi * k / (lo * n)"
    using B C ln lh assms by (intro frac_le) simp_all
  have BC: "0 \<le> B / C" using B(3) C(3) by simp
  have Q: "lo * (B / C) \<le> Q" "Q \<le> hi * (B / C)" "0 \<le> Q"
    unfolding Q_def lo_def hi_def
    by (rule fl_lower [OF BC]) (rule fl_upper [OF BC], rule fl_nonneg [OF BC])
  have Q100: "0 \<le> Q * 100" using Q(3) by simp
  have P: "lo * (Q * 100) \<le> pct k n" "pct k n \<le> hi * (Q * 100)"
    unfolding pct_def Q_def [symmetric] B_def [symmetric] C_def [symmetric] lo_def hi_def
    by (rule fl_lower [OF Q100]) (rule fl_upper [OF Q100])
  have "100 * (lo ^ 3 / hi) * (k / n) = lo * (lo * (lo * k / (hi * n)) * 100)"
    using lh assms(2) by (simp add: power3_eq_cube field_simps)
  also have "\<dots> \<le> lo * (lo * (B / C) * 100)"
    using d1 lh by (intro mult_left_mono mult_right_mono) simp_all
  also have "\<dots> \<le> lo * (Q * 100)"
    using Q(1) lh by (intro mult_left_mono mult_right_mono) simp_all
  also have "\<dots> \<le> pct k n" by (rule P(1))
  finally show "100 * ((1 - unit_roundoff) ^ 3 / (1 + unit_roundoff)) * (k / n) \<le> pct k n"
    by (simp add: lo_def hi_def)
  have "pct k n \<le> hi * (Q * 100)" by (rule P(2))
  also have "\<dots> \<le> hi * (hi * (B / C) * 100)"
    using Q(2) lh by (intro mult_left_mono mult_right_mono) simp_all
  also have "\<dots> \<le> hi * (hi * (hi * k / (lo * n)) * 100)"
    using d2 lh by (intro mult_left_mono mult_right_mono) simp_all
  also have "\<dots> = 100 * (hi ^ 3 / lo) * (k / n)"
    using lh assms(2) by (simp add: power3_eq_cube field_simps)
  finally show "pct k n \<le> 100 * ((1 + unit_roundoff) ^ 3 / (1 - unit_roundoff)) * (k / n)"
    by (simp add: lo_def hi_def)
qed

lemma roundoff_numbers:
  "100 - 1 / 2 ^ 44 \<le> 100 * ((1 - unit_roundoff) ^ 3 / (1 + unit_roundoff))"
  "100 * ((1 + unit_roundoff) ^ 3 / (1 - unit_roundoff)) \<le> 100 + 1 / 2 ^ 44"
  by (simp_all add: unit_roundoff_def field_simps)

lemma pct_sum:
  assumes "0 \<le> k" "k \<le> n" "0 < n"
  shows "\<bar>pct k n + pct (n - k) n - 100\<bar> \<le> 1 / 2 ^ 44"
proof -
  define lo3 hi3 where "lo3 = 100 * ((1 - unit_roundoff) ^ 3 / (1 + unit_roundoff))"
    and "hi3 = 100 * ((1 + unit_roundoff) ^ 3 / (1 - unit_roundoff))"
  have nk: "0 \<le> n - k" using assms by simp
  note a = pct_bounds [OF assms(1,3), folded lo3_def hi3_def]
  note b = pct_bounds [OF nk assms(3), folded lo3_def hi3_def]
  have s: "k / n + (n - k) / n = 1" using assms(3) by (simp add: field_simps)
  have d: "\<And>c::real. c * (k / n) + c * ((n - k) / n) = c"
  proof -
    fix c :: real
    have "c * (k / n) + c * ((n - k) / n) = c * (k / n + (n - k) / n)"
      by (simp only: distrib_left)
    then show "c * (k / n) + c * ((n - k) / n) = c" by (simp only: s mult_1_right)
  qed
  have "lo3 = lo3 * (k / n) + lo3 * ((n - k) / n)"
    by (simp only: d)
  also have "\<dots> \<le> pct k n + pct (n - k) n" using a(1) b(1) by linarith
  finally have l: "lo3 \<le> pct k n + pct (n - k) n" .
  have "pct k n + pct (n - k) n \<le> hi3 * (k / n) + hi3 * ((n - k) / n)"
    using a(2) b(2) by linarith
  also have "\<dots> = hi3" by (simp only: d)
  finally have h: "pct k n + pct (n - k) n \<le> hi3" .
  define t :: real where "t = 1 / 2 ^ 44"
  from roundoff_numbers [folded lo3_def hi3_def t_def] l h
  have "\<bar>pct k n + pct (n - k) n - 100\<bar> \<le> t" by linarith
  then show ?thesis by (simp only: t_def)
qed

lemma fl_tolerance: "fl (100 - 1 / 2 ^ 44) = 100 - 1 / 2 ^ 44" "fl (100 + 1 / 2 ^ 44) = 100 + 1 / 2 ^ 44"
  by (simp_all add: fl_def binade_def bit_length.simps Let_def round_half_even_def)

subsection \<open>Completeness and null percentage\<close>

text \<open>
  C1 as the specification states it: completeness + null_percentage / 100 = 1.
  On a one-row dataset whose only cell is present the profile stores completeness 100
  and null_percentage 0, so the sum is 100 and not 1: both stored values are
  percentages on the scale 0 to 100.
\<close>

theorem completeness_sum_counterexample:
  "assess_data_quality df_one_row
     = [(''a'', \<lparr> null_percentage = Fin 0, unique_values = 1, data_type = ''float64'',
                  completeness = Fin 100, duplicate_percentage = None \<rparr>)]
   \<and> pf_plus (completeness (column_metrics df_one_row (hd (columns df_one_row))))
        (pf_div (null_percentage (column_metrics df_one_row (hd (columns df_one_row)))) 100)
       = Fin 100"
  by (simp add: assess_data_quality_def df_one_row_def column_metrics_def
      isnull_sum_def nunique_def fl_eval)

lemma isnull_sum_le: "isnull_sum c \<le> length (cells c)"
  by (simp add: isnull_sum_def)

lemma column_percentages:
  assumes "0 < n_rows df"
  shows "null_percentage (column_metrics df c) = Fin (pct (real (isnull_sum c)) (real (n_rows df)))"
    and "isnull_sum c \<le> n_rows df \<Longrightarrow>
         completeness (column_metrics df c)
           = Fin (pct (real (n_rows df) - real (isnull_sum c)) (real (n_rows df)))"
  using assms by (simp_all add: column_metrics_def pct_def of_nat_diff)

text \<open>
  C1 as amended: for every column of every dataset with at least one row, the stored
  completeness and null_percentage are doubles between 0 and 100 whose sum is 100
  within floating tolerance, that is completeness / 100 + null_percentage / 100 = 1
  within floating tolerance: the exact sum of the two stored values, and the double
  that adding them gives, differ from 100 by at most 1 / 2 ^ 44. (The sum need not be
  exactly 100: with one null in three rows it is 100 - 1 / 2 ^ 46.)
\<close>

theorem completeness_plus_null_percentage:
  assumes "wf_df df" and "0 < n_rows df" and "(cn, m) \<in> set (assess_data_quality df)"
  shows "\<exists>cp np s. completeness m = Fin cp \<and> null_percentage m = Fin np
           \<and> 0 \<le> cp \<and> cp \<le> 100 \<and> 0 \<le> np \<and> np \<le> 100
           \<and> \<bar>cp + np - 100\<bar> \<le> 1 / 2 ^ 44
           \<and> \<bar>cp / 100 + np / 100 - 1\<bar> \<le> 1 / 2 ^ 50
           \<and> pf_plus (completeness m) (null_percentage m) = Fin s
           \<and> \<bar>s - 100\<bar> \<le> 1 / 2 ^ 44"
proof -
  from assms(3) obtain c where c: "c \<in> set (columns df)" and m: "m = column_metrics df c"
    by (auto simp: assess_data_quality_def)
  let ?n = "real (n_rows df)" and ?k = "real (isnull_sum c)"
  from assms(1) c have "length (cells c) = n_rows df"
    by (auto simp: wf_df_def list_all_iff)
  with isnull_sum_le [of c] have kn: "isnull_sum c \<le> n_rows df" by simp
  have k: "0 \<le> ?k" "?k \<le> ?n" "0 < ?n" using kn assms(2) by simp_all
  have nk: "0 \<le> ?n - ?k" "?n - ?k \<le> ?n" using k by simp_all
  define np where "np = pct ?k ?n"
  define cp where "cp = pct (?n - ?k) ?n"
  have 1: "null_percentage m = Fin np" "completeness m = Fin cp"
    using column_percentages [OF assms(2), of c] kn by (simp_all add: m np_def cp_def)
  have 2: "0 \<le> np" "np \<le> 100" unfolding np_def by (rule pct_range [OF k])+
  have 3: "0 \<le> cp" "cp \<le> 100" unfolding cp_def by (rule pct_range [OF nk k(3)])+
  have "\<bar>np + cp - 100\<bar> \<le> 1 / 2 ^ 44" unfolding np_def cp_def by (rule pct_sum [OF k])
  then have 4: "\<bar>cp + np - 100\<bar> \<le> 1 / 2 ^ 44" by (simp add: add.commute)
  have 5: "pf_plus (completeness m) (null_percentage m) = Fin (fl (cp + np))"
    by (simp add: 1)
  have lo: "100 - 1 / 2 ^ 44 \<le> cp + np" and hi: "cp + np \<le> 100 + 1 / 2 ^ 44"
    using 4 by (simp_all only: abs_le_iff) linarith+
  have "fl (100 - 1 / 2 ^ 44) \<le> fl (cp + np)" using lo by (intro fl_mono) simp_all
  moreover have "fl (cp + np) \<le> fl (100 + 1 / 2 ^ 44)"
    using hi 2 3 by (intro fl_mono) simp_all
  ultimately have 6: "\<bar>fl (cp + np) - 100\<bar> \<le> 1 / 2 ^ 44"
    unfolding fl_tolerance by (simp only: abs_le_iff) linarith
  have "cp / 100 + np / 100 - 1 = (cp + np - 100) / 100" by simp
  then have "\<bar>cp / 100 + np / 100 - 1\<bar> = \<bar>cp + np - 100\<bar> / 100"
    by (simp only: abs_divide)
  also have "\<dots> \<le> (1 / 2 ^ 44) / 100" using 4 by (intro divide_right_mono) simp_all
  also have "\<dots> \<le> 1 / 2 ^ 50" by simp
  finally have 7: "\<bar>cp / 100 + np / 100 - 1\<bar> \<le> 1 / 2 ^ 50" .
  from 1 2 3 4 5 6 7 show ?thesis by blast
qed

theorem completeness_plus_null_percentage_witness:
  "wf_df df_thirds \<and> 0 < n_rows df_thirds
   \<and> (''a'', column_metrics df_thirds (hd (columns df_thirds))) \<in> set (assess_data_quality df_thirds)
   \<and> (\<exists>cp np s. completeness (column_metrics df_thirds (hd (columns df_thirds))) = Fin cp
          \<and> null_percentage (column_metrics df_thirds (hd (columns df_thirds))) = Fin np
          \<and> 0 \<le> cp \<and> cp \<le> 100 \<and> 0 \<le> np \<and> np \<le> 100
          \<and> \<bar>cp + np - 100\<bar> \<le> 1 / 2 ^ 44
          \<and> \<bar>cp / 100 + np / 100 - 1\<bar> \<le> 1 / 2 ^ 50
          \<and> pf_plus (completeness (column_metrics df_thirds (hd (columns df_thirds))))
                (null_percentage (column_metrics df_thirds (hd (columns df_thirds)))) = Fin s
          \<and> \<bar>s - 100\<bar> \<le> 1 / 2 ^ 44)
   \<and> pf_plus (completeness (column_metrics df_thirds (hd (columns df_thirds))))
        (null_percentage (column_metrics df_thirds (hd (columns df_thirds))))
       = Fin (100 - 1 / 2 ^ 46)"
proof -
  have a: "wf_df df_thirds" "0 < n_rows df_thirds"
    "(''a'', column_metrics df_thirds (hd (columns df_thirds))) \<in> set (assess_data_quality df_thirds)"
    by (simp_all add: wf_df_def df_thirds_def assess_data_quality_def)
  have b: "pf_plus (completeness (column_metrics df_thirds (hd (columns df_thirds))))
        (null_percentage (column_metrics df_thirds (hd (columns df_thirds))))
       = Fin (100 - 1 / 2 ^ 46)"
    by (simp add: df_thirds_def column_metrics_def isnull_sum_def fl_eval)
  from completeness_plus_null_percentage [OF a] a b show ?thesis by simp
qed


subsection \<open>Semantic types\<close>

lemma classify_first_match:
  "classify_column_type rt column_name vals
     = first_match (semantic_type_cascade rt) ''generic'' (column_name, take 10 vals)"
  by (simp add: classify_column_type_def semantic_type_cascade_def Let_def)

text \<open>
  C7: the classification is a function of the column name and the first at most 10
  non-null stringified values, and it is the first-match evaluation of the rule list in
  the order email, phone, date, identifier, currency, geographic, else generic: a rule
  decides the result only when no rule before it matches. \<open>_infer_column_types\<close>
  passes the first 100 values, of which the classifier reads the first 10.
\<close>

theorem semantic_type_cascade_order:
  "classify_column_type rt column_name vals
     = first_match (semantic_type_cascade rt) ''generic'' (column_name, take 10 vals)
   \<and> infer_column_types rt df
     = map (\<lambda>c. (col_name c, first_match (semantic_type_cascade rt) ''generic''
                    (col_name c, take 10 (dropna_astype_str rt c)))) (columns df)"
  by (simp add: infer_column_types_def classify_first_match)

subsection \<open>Correlations\<close>

lemma set_index_pairs: "set (index_pairs n) = {(i, j). i < j \<and> j < n}"
  by (force simp: index_pairs_def)

lemma distinct_concat_map:
  assumes "distinct xs" and "\<And>x. distinct (f x)"
    and "\<And>x y. x \<noteq> y \<Longrightarrow> set (f x) \<inter> set (f y) = {}"
  shows "distinct (concat (map f xs))"
  using assms(1)
proof (induction xs)
  case Nil
  then show ?case by simp
next
  case (Cons a xs)
  have "set (f a) \<inter> set (f y) = {}" if "y \<in> set xs" for y
    using Cons.prems that assms(3) [of a y] by auto
  with Cons assms(2) show ?case by auto
qed

lemma distinct_index_pairs: "distinct (index_pairs n)"
  unfolding index_pairs_def
  by (rule distinct_concat_map) (auto simp: distinct_map inj_on_def)

lemma corr_matrix_nth:
  "i < length cs \<Longrightarrow> j < length cs \<Longrightarrow> corr_matrix rt cs ! i ! j = pearson rt (cs ! i) (cs ! j)"
  by (simp add: corr_matrix_def)

lemma distinct_numeric_names:
  "wf_df df \<Longrightarrow> distinct (map col_name (numeric_columns df))"
  by (simp add: wf_df_def numeric_columns_def distinct_map_filter)

lemma pair_names_inj:
  assumes d: "distinct (map col_name cs)"
  shows "inj_on (\<lambda>(i, j). {col_name (cs ! i), col_name (cs ! j)}) {(i, j). i < j \<and> j < length cs}"
proof (rule inj_onI, clarify)
  fix i j i' j'
  assume lt: "i < j" "j < length cs" "i' < j'" "j' < length cs"
     and eq: "{col_name (cs ! i), col_name (cs ! j)} = {col_name (cs ! i'), col_name (cs ! j')}"
  have nm: "\<And>a b. a < length cs \<Longrightarrow> b < length cs \<Longrightarrow> col_name (cs ! a) = col_name (cs ! b) \<longleftrightarrow> a = b"
    using d by (metis length_map nth_eq_iff_index_eq nth_map)
  from eq have "(col_name (cs ! i) = col_name (cs ! i') \<and> col_name (cs ! j) = col_name (cs ! j'))
     \<or> (col_name (cs ! i) = col_name (cs ! j') \<and> col_name (cs ! j) = col_name (cs ! i'))"
    by (auto simp: doubleton_eq_iff)
  then have "(i = i' \<and> j = j') \<or> (i = j' \<and> j = i')"
    using nm lt by (metis less_trans)
  with lt show "i = i' \<and> j = j'" by auto
qed


lemma wf_df_two_numeric: "wf_df df_two_numeric"
  by (simp add: wf_df_def df_two_numeric_def)

lemma strong_entries:
  assumes "wf_df df" and n: "length (numeric_columns df) > 1"
  shows "\<exists>strong m. analyze_correlations rt df = Correlations strong m
      \<and> list_all (\<lambda>e. pf_gt (pf_abs (correlation e)) (7 / 10)) strong
      \<and> distinct (map (\<lambda>e. {column1 e, column2 e}) strong)
      \<and> list_all (\<lambda>e. column1 e \<noteq> column2 e) strong"
proof -
  let ?cs = "numeric_columns df"
  let ?m = "corr_matrix rt ?cs"
  let ?P = "\<lambda>(i, j). pf_gt (pf_abs (?m ! i ! j)) (7 / 10)"
  let ?ps = "filter ?P (index_pairs (length ?cs))"
  let ?mk = "\<lambda>(i, j). \<lparr> column1 = col_name (?cs ! i), column2 = col_name (?cs ! j),
                          correlation = ?m ! i ! j \<rparr>"
  let ?strong = "map ?mk ?ps"
  have d: "distinct (map col_name ?cs)" using assms(1) by (rule distinct_numeric_names)
  have eq: "\<exists>m. analyze_correlations rt df = Correlations ?strong m"
    using n by (simp add: analyze_correlations_def Let_def)
  have a: "list_all (\<lambda>e. pf_gt (pf_abs (correlation e)) (7 / 10)) ?strong"
    by (auto simp: list_all_iff)
  have sub: "set ?ps \<subseteq> {(i, j). i < j \<and> j < length ?cs}"
    by (auto simp: set_index_pairs)
  have "map (\<lambda>e. {column1 e, column2 e}) ?strong
          = map (\<lambda>(i, j). {col_name (?cs ! i), col_name (?cs ! j)}) ?ps"
    by (rule nth_equalityI) (simp_all add: case_prod_beta)
  moreover have "distinct (map (\<lambda>(i, j). {col_name (?cs ! i), col_name (?cs ! j)}) ?ps)"
    using distinct_index_pairs sub pair_names_inj [OF d]
    by (simp add: distinct_map inj_on_subset)
  ultimately have b: "distinct (map (\<lambda>e. {column1 e, column2 e}) ?strong)"
    by (simp only:)
  have neq: "col_name (?cs ! i) \<noteq> col_name (?cs ! j)" if "i < j" "j < length ?cs" for i j
  proof -
    have "i < length (map col_name ?cs)" "j < length (map col_name ?cs)" "i \<noteq> j"
      using that by simp_all
    with nth_eq_iff_index_eq [OF d, of i j]
    have "map col_name ?cs ! i \<noteq> map col_name ?cs ! j" by blast
    then show ?thesis using that by simp
  qed
  have c: "list_all (\<lambda>e. column1 e \<noteq> column2 e) ?strong"
    unfolding list_all_iff
  proof
    fix e assume "e \<in> set ?strong"
    then obtain i j where ij: "(i, j) \<in> set ?ps" and e: "e = ?mk (i, j)" by auto
    from ij sub have "i < j" "j < length ?cs" by auto
    from neq [OF this] show "column1 e \<noteq> column2 e" by (simp add: e)
  qed
  from eq obtain m where "analyze_correlations rt df = Correlations ?strong m" ..
  with a b c show ?thesis by (intro exI conjI)
qed

text \<open>
  C6: on a dataset (with distinct column names) of at least two numeric columns every
  reported entry has an absolute correlation strictly above 0.7, the unordered pairs of
  column names of the reported entries are pairwise different, so a pair is never
  reported both as (A, B) and as (B, A), and no column is paired with itself; with
  fewer than two numeric columns the result is the explicit
  insufficient-columns value.
\<close>

theorem strong_correlations_sound:
  assumes "wf_df df"
  shows "(2 \<le> length (numeric_columns df) \<longrightarrow>
           (\<exists>strong m. analyze_correlations rt df = Correlations strong m
              \<and> list_all (\<lambda>e. pf_gt (pf_abs (correlation e)) (7 / 10)) strong
              \<and> distinct (map (\<lambda>e. {column1 e, column2 e}) strong)
              \<and> list_all (\<lambda>e. column1 e \<noteq> column2 e) strong))
       \<and> (length (numeric_columns df) < 2 \<longrightarrow>
            analyze_correlations rt df
              = InsufficientColumns ''Insufficient numeric columns for correlation analysis'')"
proof (intro conjI impI)
  assume "2 \<le> length (numeric_columns df)"
  then have "length (numeric_columns df) > 1" by simp
  from strong_entries [OF assms this]
  show "\<exists>strong m. analyze_correlations rt df = Correlations strong m
      \<and> list_all (\<lambda>e. pf_gt (pf_abs (correlation e)) (7 / 10)) strong
      \<and> distinct (map (\<lambda>e. {column1 e, column2 e}) strong)
      \<and> list_all (\<lambda>e. column1 e \<noteq> column2 e) strong" .
next
  assume "length (numeric_columns df) < 2"
  then show "analyze_correlations rt df
              = InsufficientColumns ''Insufficient numeric columns for correlation analysis''"
    by (simp add: analyze_correlations_def Let_def)
qed

theorem strong_correlations_sound_witness:
  "wf_df df_two_numeric \<and> 2 \<le> length (numeric_columns df_two_numeric)
   \<and> (\<exists>strong m.
         analyze_correlations (no_library \<lparr> pearson := (\<lambda>a b. Fin (17 / 20)) \<rparr>) df_two_numeric
           = Correlations strong m
       \<and> list_all (\<lambda>e. pf_gt (pf_abs (correlation e)) (7 / 10)) strong
       \<and> distinct (map (\<lambda>e. {column1 e, column2 e}) strong)
       \<and> list_all (\<lambda>e. column1 e \<noteq> column2 e) strong)
   \<and> analyze_correlations (no_library \<lparr> pearson := (\<lambda>a b. Fin (17 / 20)) \<rparr>) df_text_only
       = InsufficientColumns ''Insufficient numeric columns for correlation analysis''"
proof -
  have n: "2 \<le> length (numeric_columns df_two_numeric)"
    by (simp add: numeric_columns_def df_two_numeric_def)
  have t: "wf_df df_text_only" "length (numeric_columns df_text_only) < 2"
    by (simp_all add: wf_df_def numeric_columns_def df_text_only_def)
  show ?thesis
    using strong_correlations_sound [OF wf_df_two_numeric] strong_correlations_sound [OF t(1)]
      n t wf_df_two_numeric by blast
qed

subsection \<open>Clustering and anomaly detection on degenerate inputs\<close>

text \<open>
  C3 as the specification states it: with zero numeric columns or zero rows both steps
  return an explicit error marker. On a dataset with one text column, and on a dataset
  with a numeric column and no rows, both steps return the empty dictionary: the
  marker is absent.
\<close>

theorem degraded_marker_counterexample:
  "numeric_columns df_text_only = [] \<and> detect_patterns no_library df_text_only = None
   \<and> detect_anomalies no_library df_text_only = None
   \<and> n_rows df_no_rows = 0 \<and> detect_patterns no_library df_no_rows = None
   \<and> detect_anomalies no_library df_no_rows = None"
  by (simp add: numeric_columns_def df_text_only_def df_no_rows_def detect_patterns_def
      detect_anomalies_def)

text \<open>
  C3 as amended: with zero numeric columns or zero rows both steps return the empty
  result, without an error marker and without raising; the error marker of the
  clustering step appears exactly when there is a numeric column, at least one row, and
  the clustering call raises; the marker of the anomaly step exactly when there is a
  numeric column, more than 10 rows, and the detector raises.
\<close>

theorem degraded_marker_only_on_failure:
  "((numeric_columns df = [] \<or> n_rows df = 0) \<longrightarrow>
      detect_patterns rt df = None \<and> detect_anomalies rt df = None)
   \<and> ((\<exists>s. detect_patterns rt df = Some (ClusterError s)) \<longleftrightarrow>
        numeric_columns df \<noteq> [] \<and> 0 < n_rows df \<and> cluster_rows rt (numeric_data df) = None)
   \<and> ((\<exists>s. detect_anomalies rt df = Some (AnomalyError s)) \<longleftrightarrow>
        numeric_columns df \<noteq> [] \<and> 10 < n_rows df \<and> isolation_forest rt (numeric_data df) = None)"
  by (auto simp: detect_patterns_def detect_anomalies_def Let_def split: option.splits)

theorem degraded_marker_only_on_failure_witness:
  "(numeric_columns df_no_rows = [] \<or> n_rows df_no_rows = 0)
   \<and> detect_patterns no_library df_no_rows = None
   \<and> detect_anomalies no_library df_no_rows = None
   \<and> (\<exists>s. detect_patterns no_library df_two_numeric = Some (ClusterError s))
   \<and> \<not> (\<exists>s. detect_anomalies no_library df_two_numeric = Some (AnomalyError s))"
proof -
  have a: "n_rows df_no_rows = 0" by (simp add: df_no_rows_def)
  have b: "numeric_columns df_two_numeric \<noteq> []" "0 < n_rows df_two_numeric"
    "\<not> 10 < n_rows df_two_numeric"
    "cluster_rows no_library (numeric_data df_two_numeric) = None"
    by (simp_all add: numeric_columns_def df_two_numeric_def no_library_def)
  show ?thesis
    using degraded_marker_only_on_failure [of df_no_rows no_library]
      degraded_marker_only_on_failure [of df_two_numeric no_library] a b
    by blast
qed

subsection \<open>Transform directives derived from the recommendations\<close>

lemma rec40: "recommendations (analyze_data_patterns no_library df_apostrophe)
  = [''High null percentage (40.0%) in column '' @ quoted (''o'' @ [apos] @ ''clock'') @ ''. Consider imputation or removal.'']"
  by (simp add: analyze_data_patterns_def generate_recommendations_def assess_data_quality_def
     df_apostrophe_def column_metrics_def isnull_sum_def nunique_def quality_recommendations_def
     infer_column_types_def classify_column_type_def no_library_def type_recommendations_def
     analyze_correlations_def numeric_columns_def detect_anomalies_def anomaly_recommendations_def
     py_lower_def lower_char_def apos_def dropna_astype_str_def List.map_filter_def Let_def
     str_nat.simps zero_pad_def date_patterns_def fl_eval)

text \<open>
  C2, evaluated on a dataset of five rows whose single column is named \<open>o'clock\<close> and
  has two nulls: the null percentage is 40, above the threshold 20, and the only
  directive emitted is a \<open>fill_nulls\<close> with method median whose target is \<open>o\<close>, the text
  between the first two apostrophes of the recommendation; no directive targets the
  column \<open>o'clock\<close>.
\<close>

theorem fill_nulls_targets_wrong_column:
  "null_percentage (column_metrics df_apostrophe (hd (columns df_apostrophe))) = Fin 40
   \<and> transformations (create_pipeline_config ''p'' ''data.csv''
        (analyze_data_patterns no_library df_apostrophe) ''airflow'' [(''type'', PStr ''csv'')] t0)
     = PList [PDict [(''type'', PStr ''fill_nulls''), (''column'', PStr ''o''),
                     (''method'', PStr ''median'')]]"
proof
  show "null_percentage (column_metrics df_apostrophe (hd (columns df_apostrophe))) = Fin 40"
    by (simp add: df_apostrophe_def column_metrics_def isnull_sum_def fl_eval)
  show "transformations (create_pipeline_config ''p'' ''data.csv''
        (analyze_data_patterns no_library df_apostrophe) ''airflow'' [(''type'', PStr ''csv'')] t0)
     = PList [PDict [(''type'', PStr ''fill_nulls''), (''column'', PStr ''o''),
                     (''method'', PStr ''median'')]]"
    by (simp add: rec40 create_pipeline_config_def recommended_transformations_def
        column_name_of_def quoted_def apos_def py_lower_def lower_char_def Let_def)
qed


subsection \<open>The registry\<close>

lemma map_of_dict_set: "map_of (dict_set ps k v) = (map_of ps)(k \<mapsto> v)"
  by (induction ps) (auto simp: fun_eq_iff)

lemma keys_dict_set:
  "map_of ps k \<noteq> None \<Longrightarrow> map fst (dict_set ps k v) = map fst ps"
  by (induction ps) auto


lemma pipelines_save_configurations [simp]:
  "pipelines (save_configurations m) = pipelines m"
  by (simp add: save_configurations_def split: option.splits)

text \<open>
  C8: deleting a name that is not a key of the registry returns the not-found error
  and leaves the manager state, that is the in-memory dictionary and the registry
  file, as it was.
\<close>

theorem delete_absent_pipeline:
  assumes "pipeline_name \<notin> fst ` set (pipelines m)"
  shows "delete_pipeline m pipeline_name
           = (ErrorResponse (''Pipeline '' @ quoted pipeline_name @ '' not found''), m)"
proof -
  from assms have "map_of (pipelines m) pipeline_name = None"
    by (simp add: map_of_eq_None_iff)
  then show ?thesis by (simp add: delete_pipeline_def not_found_def)
qed

theorem delete_absent_pipeline_witness:
  "delete_pipeline mgr0 ''orders''
     = (ErrorResponse (''Pipeline '' @ quoted ''orders'' @ '' not found''), mgr0)"
  using delete_absent_pipeline [of "''orders''" mgr0] by (simp add: mgr0_def)

lemma apply_updates_frame:
  "name (apply_updates u c) = name c \<and> source_type (apply_updates u c) = source_type c
   \<and> source_config (apply_updates u c) = source_config c
   \<and> destination_type (apply_updates u c) = destination_type c
   \<and> destination_config (apply_updates u c) = destination_config c
   \<and> framework (apply_updates u c) = framework c
   \<and> created_at (apply_updates u c) = created_at c"
  by (simp add: apply_updates_def Let_def split: option.splits)

lemma apply_updates_fields:
  "schedule (apply_updates u c) = (case map_of u ''schedule'' of Some v \<Rightarrow> v | None \<Rightarrow> schedule c)
   \<and> transformations (apply_updates u c)
       = (case map_of u ''transformations'' of Some v \<Rightarrow> v | None \<Rightarrow> transformations c)
   \<and> quality_checks (apply_updates u c)
       = (case map_of u ''quality_checks'' of Some v \<Rightarrow> v | None \<Rightarrow> quality_checks c)"
  by (simp add: apply_updates_def Let_def split: option.splits)

text \<open>
  C10: updating an existing pipeline with any updates dictionary leaves name,
  source_type, source_config, destination_type, destination_config, framework and
  created_at of the stored configuration as they were, whatever keys the dictionary
  holds; schedule, transformations and quality_checks take the value given under their
  key, if any; the keys of the registry and every other entry are unchanged.
\<close>

theorem update_pipeline_frame:
  assumes "map_of (pipelines m) pipeline_name = Some config"
  shows "\<exists>config'. map_of (pipelines (snd (update_pipeline m pipeline_name updates))) pipeline_name
             = Some config'
      \<and> name config' = name config \<and> source_type config' = source_type config
      \<and> source_config config' = source_config config
      \<and> destination_type config' = destination_type config
      \<and> destination_config config' = destination_config config
      \<and> framework config' = framework config \<and> created_at config' = created_at config
      \<and> schedule config'
          = (case map_of updates ''schedule'' of Some v \<Rightarrow> v | None \<Rightarrow> schedule config)
      \<and> transformations config'
          = (case map_of updates ''transformations'' of
               Some v \<Rightarrow> v | None \<Rightarrow> transformations config)
      \<and> quality_checks config'
          = (case map_of updates ''quality_checks'' of
               Some v \<Rightarrow> v | None \<Rightarrow> quality_checks config)
      \<and> map fst (pipelines (snd (update_pipeline m pipeline_name updates)))
          = map fst (pipelines m)
      \<and> (\<forall>other. other \<noteq> pipeline_name \<longrightarrow>
            map_of (pipelines (snd (update_pipeline m pipeline_name updates))) other
              = map_of (pipelines m) other)"
proof -
  let ?c = "apply_updates updates config"
  have p: "pipelines (snd (update_pipeline m pipeline_name updates))
             = dict_set (pipelines m) pipeline_name ?c"
    using assms by (simp add: update_pipeline_def Let_def)
  have 1: "map_of (pipelines (snd (update_pipeline m pipeline_name updates))) pipeline_name
             = Some ?c"
    by (simp add: p map_of_dict_set)
  have 2: "map fst (pipelines (snd (update_pipeline m pipeline_name updates)))
             = map fst (pipelines m)"
    using assms by (simp add: p keys_dict_set)
  have 3: "\<forall>other. other \<noteq> pipeline_name \<longrightarrow>
            map_of (pipelines (snd (update_pipeline m pipeline_name updates))) other
              = map_of (pipelines m) other"
    by (simp add: p map_of_dict_set)
  from 1 2 3 apply_updates_frame [of updates config] apply_updates_fields [of updates config]
  show ?thesis by (intro exI [of _ ?c]) simp
qed

theorem update_pipeline_frame_witness:
  "\<exists>config'. map_of (pipelines (snd (update_pipeline mgr0 ''sales''
        [(''name'', PStr ''renamed''), (''framework'', PStr ''dbt''),
         (''schedule'', PStr ''@hourly'')]))) ''sales'' = Some config'
     \<and> name config' = PStr ''sales'' \<and> framework config' = PStr ''airflow''
     \<and> created_at config' = t0 \<and> schedule config' = PStr ''@hourly''"
  using update_pipeline_frame [of mgr0 "''sales''" cfg0
      "[(''name'', PStr ''renamed''), (''framework'', PStr ''dbt''),
        (''schedule'', PStr ''@hourly'')]"]
  by (auto simp: mgr0_def cfg0_def)

subsection \<open>Round trip through the registry file\<close>









lemma map_of_config_dict [simp]:
  "map_of (config_dict c) ''name'' = Some (name c)"
  "map_of (config_dict c) ''source_type'' = Some (source_type c)"
  "map_of (config_dict c) ''source_config'' = Some (source_config c)"
  "map_of (config_dict c) ''transformations'' = Some (transformations c)"
  "map_of (config_dict c) ''destination_type'' = Some (destination_type c)"
  "map_of (config_dict c) ''destination_config'' = Some (destination_config c)"
  "map_of (config_dict c) ''schedule'' = Some (schedule c)"
  "map_of (config_dict c) ''quality_checks'' = Some (quality_checks c)"
  "map_of (config_dict c) ''framework'' = Some (framework c)"
  "map_of (config_dict c) ''created_at'' = Some (PStr (isoformat (created_at c)))"
  by (simp_all add: config_dict_def)











subsection \<open>Quality rules of an unknown type\<close>

















subsection \<open>Code generation and the clock\<close>






end
